theory Spec2Isabelle
  imports Main "HOL-Library.Word" "HOL-Library.AList"
begin

section \<open>The Go library functions that restclient calls\<close>

text \<open>
  The package \<open>restclient\<close> leans on a few functions of Go's standard library. They are
  written out here with the behaviour their documentation gives, so that the functions of
  the package can be evaluated on concrete header values.
  Strings are byte lists. \<open>strings.ToLower\<close> is modelled on ASCII letters, which is all
  that the search for the text \<open>max-age\<close> can observe.
\<close>

text \<open>\<open>strings.HasPrefix s p\<close>.\<close>

fun HasPrefix :: "string \<Rightarrow> string \<Rightarrow> bool" where
  "HasPrefix s [] = True"
| "HasPrefix [] (p # ps) = False"
| "HasPrefix (c # cs) (p # ps) = (c = p \<and> HasPrefix cs ps)"

text \<open>\<open>strings.Contains s substr\<close>: \<open>substr\<close> occurs somewhere in \<open>s\<close>.\<close>

fun Contains :: "string \<Rightarrow> string \<Rightarrow> bool" where
  "Contains [] substr = (substr = [])"
| "Contains (c # cs) substr = (HasPrefix (c # cs) substr \<or> Contains cs substr)"

definition lower_char :: "char \<Rightarrow> char" where
  "lower_char c =
     (let n = (of_char c :: nat) in if 65 \<le> n \<and> n \<le> 90 then char_of (n + 32) else c)"

definition ToLower :: "string \<Rightarrow> string" where
  "ToLower s = map lower_char s"

text \<open>
  \<open>strings.Split s sep\<close> for a separator of one byte (the package only splits at
  \<open>=\<close>). The result always has at least one element: \<open>Split "" "="\<close> is \<open>[""]\<close>.
\<close>

fun Split :: "string \<Rightarrow> char \<Rightarrow> string list" where
  "Split [] sep = [[]]"
| "Split (c # cs) sep =
     (if c = sep then [] # Split cs sep
      else (case Split cs sep of [] \<Rightarrow> [[c]] | w # ws \<Rightarrow> (c # w) # ws))"

text \<open>Go's error values, as far as the package tells them apart.\<close>

datatype cause = NotFollowRedirectError | OtherCause string

datatype go_error =
    UrlError cause      \<comment> \<open>a \<open>*url.Error\<close> and its field \<open>Err\<close>\<close>
  | NumError string     \<comment> \<open>a \<open>*strconv.NumError\<close>: \<open>syntax\<close> or \<open>range\<close>\<close>
  | OtherError string   \<comment> \<open>any other error value\<close>

definition is_digit :: "char \<Rightarrow> bool" where
  "is_digit c = (let n = (of_char c :: nat) in 48 \<le> n \<and> n \<le> 57)"

definition digit_val :: "char \<Rightarrow> int" where
  "digit_val c = int (of_char c) - 48"

definition decimal :: "string \<Rightarrow> int" where
  "decimal ds = foldl (\<lambda>n c. n * 10 + digit_val c) 0 ds"

definition maxInt :: int where
  "maxInt = 9223372036854775807"

definition minInt :: int where
  "minInt = - 9223372036854775808"

text \<open>
  \<open>strconv.Atoi\<close> on a platform whose \<open>int\<close> has 64 bits: an optional sign, then decimal
  digits only. A syntax error gives 0; a value out of range gives the nearest bound of
  \<open>int\<close>; both come with a non-nil error.
\<close>

definition Atoi :: "string \<Rightarrow> int \<times> go_error option" where
  "Atoi s =
     (let neg = (s \<noteq> [] \<and> hd s = CHR ''-'');
          ds = (if s \<noteq> [] \<and> (hd s = CHR ''-'' \<or> hd s = CHR ''+'') then tl s else s)
      in if ds = [] \<or> \<not> list_all is_digit ds then (0, Some (NumError ''syntax''))
         else let v = (if neg then - decimal ds else decimal ds)
              in if maxInt < v then (maxInt, Some (NumError ''range''))
                 else if v < minInt then (minInt, Some (NumError ''range''))
                 else (v, None))"

section \<open>Panics\<close>

text \<open>
  A Go function either returns or panics. A panic that nothing recovers ends the process;
  the package recovers none.
\<close>

datatype panic = IndexOutOfRange | NilDereference | RegexpSyntax

datatype 'a exec = Panic panic | Done 'a

section \<open>The max-age directive\<close>

text \<open>
  \<open>getMaxAge\<close> (lines 410 to 418). The loop looks at each value in turn; at the first one
  whose lower-case form contains \<open>max-age\<close> it splits the FIRST value of the list at
  \<open>=\<close>, takes the element of index 1 and hands it to \<open>Atoi\<close>. The index expression panics
  when the first value has no \<open>=\<close>.
\<close>

fun getMaxAge_loop :: "string list \<Rightarrow> string list \<Rightarrow> (int \<times> go_error option) exec" where
  "getMaxAge_loop cacheControlValues [] = Done (0, None)"
| "getMaxAge_loop cacheControlValues (v # rest) =
     (if Contains (ToLower v) ''max-age'' then
        (case cacheControlValues of
           [] \<Rightarrow> Panic IndexOutOfRange
         | first # _ \<Rightarrow>
             (case Split first (CHR ''='') of
                _ # part # _ \<Rightarrow> Done (Atoi part)
              | _ \<Rightarrow> Panic IndexOutOfRange))
      else getMaxAge_loop cacheControlValues rest)"

definition getMaxAge :: "string list \<Rightarrow> (int \<times> go_error option) exec" where
  "getMaxAge cacheControlValues = getMaxAge_loop cacheControlValues cacheControlValues"

section \<open>The data of the package\<close>

text \<open>
  \<open>http.Header\<close> and the field \<open>Headers\<close> of a \<open>Response\<close> are Go maps from a header
  name to its values; only lookups are made on them. A nil map is \<open>None\<close>. A point in
  time is a number of nanoseconds; a \<open>time.Duration\<close> is a signed 64-bit number of
  nanoseconds whose multiplication wraps around.
\<close>

type_synonym http_header = "string \<Rightarrow> string list option"

record Response =
  Body :: string
  Code :: int
  Headers :: "http_header option"
  CachedContent :: bool
  Staled :: bool

record cacheElement =
  Content :: string
  ceHeaders :: "http_header option"
  Expires :: int

text \<open>
  The cache of \<open>github.com/hashicorp/golang-lru\<close>, with the behaviour its documentation
  gives: a fixed capacity, the entries ordered from the most recently used to the least.
  \<open>Contains\<close> and \<open>Peek\<close> do not touch the order, \<open>Get\<close> moves the entry to the
  front, \<open>Add\<close> puts the entry at the front and drops the last one when the capacity is
  exceeded. The package calls \<open>Contains\<close>, \<open>Get\<close> and \<open>Add\<close>; \<open>Peek\<close> serves to
  state what a cache holds.
\<close>

record lru_cache =
  capacity :: nat
  entries :: "(string \<times> cacheElement) list"

definition lru_New :: "nat \<Rightarrow> lru_cache" where
  "lru_New n = \<lparr>capacity = n, entries = []\<rparr>"

definition lru_Contains :: "lru_cache \<Rightarrow> string \<Rightarrow> bool" where
  "lru_Contains c k = (map_of (entries c) k \<noteq> None)"

definition lru_Peek :: "lru_cache \<Rightarrow> string \<Rightarrow> cacheElement option" where
  "lru_Peek c k = map_of (entries c) k"

definition lru_Get :: "lru_cache \<Rightarrow> string \<Rightarrow> cacheElement option \<times> lru_cache" where
  "lru_Get c k =
     (case map_of (entries c) k of
        None \<Rightarrow> (None, c)
      | Some v \<Rightarrow> (Some v, c\<lparr>entries := (k, v) # AList.delete k (entries c)\<rparr>))"

definition lru_Add :: "lru_cache \<Rightarrow> string \<Rightarrow> cacheElement \<Rightarrow> lru_cache" where
  "lru_Add c k v =
     (if map_of (entries c) k \<noteq> None
      then c\<lparr>entries := (k, v) # AList.delete k (entries c)\<rparr>
      else if capacity c < Suc (length (entries c))
           then c\<lparr>entries := butlast ((k, v) # entries c)\<rparr>
           else c\<lparr>entries := (k, v) # entries c\<rparr>)"

text \<open>
  The \<open>http.Transport\<close> and \<open>http.Client\<close> of a pool, as far as the package sets their
  fields. Every client of the package has the same \<open>CheckRedirect\<close>, which returns the
  value \<open>notFollowRedirectError\<close>.
\<close>

record transport =
  DisableCompression :: bool
  DisableKeepAlives :: bool
  TransportMaxIdleConnsPerHost :: int
  TransportProxy :: "string option"

record http_client =
  Transport :: transport
  ClientTimeout :: "64 word"

record rClient =
  client :: http_client
  baseURL :: string
  cache :: "lru_cache option"
  stale :: bool

record PoolConfig =
  BaseURL :: string
  MaxIdleConnsPerHost :: int
  Timeout :: "64 word"
  Proxy :: string
  CacheElements :: int
  CacheState :: bool

record Header =
  Key :: string
  Value :: string

text \<open>
  A Go \<open>map[string]string\<close> of request headers: nil is \<open>None\<close>, a map is the list of its
  pairs, no key twice. \<open>len\<close> is the length of the list.
\<close>

type_synonym header_map = "(string \<times> string) list option"

record mockResponse =
  mURL :: string
  mMethod :: string
  mResponse :: Response
  mHeaders :: header_map
  mBody :: string

text \<open>What \<open>performRequest\<close> hands to \<open>http.NewRequest\<close> and \<open>setHeaders\<close>.\<close>

record request =
  rqMethod :: string
  rqURL :: string
  rqBody :: "string option"
  rqForwarded :: header_map

text \<open>
  What \<open>client.Do\<close> gives back besides its error: the status code, the headers, and what
  \<open>ioutil.ReadAll\<close> would return on the body.
\<close>

record http_response =
  StatusCode :: int
  RespHeader :: "http_header option"
  ReadAll :: "string \<times> go_error option"

text \<open>
  The package's variables: the map \<open>pools\<close>, the slice \<open>mocks\<close> (nil is the empty
  list) and the flag \<open>useMock\<close>. \<open>wire\<close> is the list of the requests given to
  \<open>client.Do\<close> so far, the oldest first; it records the network calls the package made.
\<close>

record world =
  pools :: "string \<Rightarrow> rClient option"
  mocks :: "mockResponse list"
  useMock :: bool
  wire :: "request list"

text \<open>
  What a call depends on outside the package:
  \<open>Compile\<close> is \<open>regexp.Compile\<close> followed by \<open>MatchString\<close> (\<open>None\<close> when the pattern is
  not a regular expression, and then \<open>regexp.MustCompile\<close> panics);
  \<open>range_pools\<close> is the order in which this call's \<open>range pools\<close> visits the keys, which
  Go leaves unspecified;
  \<open>NewRequest\<close> is the error of \<open>http.NewRequest\<close> for a method and a URL;
  \<open>Do\<close> is the answer of the network to a request sent by a client;
  \<open>now_lookup\<close> and \<open>now_store\<close> are the readings of \<open>time.Now\<close> in
  \<open>getResponseFromCache\<close> and in \<open>setResponseInCache\<close>.
\<close>

record env =
  Compile :: "string \<Rightarrow> (string \<Rightarrow> bool) option"
  range_pools :: "string list"
  NewRequest :: "string \<Rightarrow> string \<Rightarrow> go_error option"
  Do :: "http_client \<Rightarrow> request \<Rightarrow> http_response option \<times> go_error option"
  now_lookup :: int
  now_store :: int

section \<open>The cache of a pool\<close>

definition Second :: "64 word" where
  "Second = 1000000000"

definition Millisecond :: "64 word" where
  "Millisecond = 1000000"

text \<open>\<open>getResponseFromCache\<close> (lines 421 to 439).\<close>

definition getResponseFromCache ::
  "int \<Rightarrow> rClient \<Rightarrow> string \<Rightarrow> (Response option \<times> rClient) exec" where
  "getResponseFromCache now rclient callURL =
     (case cache rclient of
        None \<Rightarrow> Panic NilDereference
      | Some c \<Rightarrow>
          if lru_Contains c callURL then
            (case lru_Get c callURL of
               (None, c') \<Rightarrow> Panic NilDereference
             | (Some cacheElement, c') \<Rightarrow>
                 if now < Expires cacheElement then
                   Done (Some \<lparr>Body = Content cacheElement, Code = 200,
                           Headers = ceHeaders cacheElement,
                           CachedContent = True, Staled = False\<rparr>,
                         rclient\<lparr>cache := Some c'\<rparr>)
                 else if stale rclient then
                   Done (Some \<lparr>Body = Content cacheElement, Code = 200,
                           Headers = ceHeaders cacheElement,
                           CachedContent = True, Staled = True\<rparr>,
                         rclient\<lparr>cache := Some c'\<rparr>)
                 else Done (None, rclient\<lparr>cache := Some c'\<rparr>))
          else Done (None, rclient))"

text \<open>\<open>setResponseInCache\<close> (lines 442 to 462).\<close>

definition setResponseInCache :: "int \<Rightarrow> rClient \<Rightarrow> Response \<Rightarrow> string \<Rightarrow> rClient exec" where
  "setResponseInCache now rclient response callURL =
     (case (case Headers response of None \<Rightarrow> None | Some h \<Rightarrow> h ''Cache-Control'') of
        None \<Rightarrow> Done rclient
      | Some cacheControl \<Rightarrow>
          (case getMaxAge cacheControl of
             Panic p \<Rightarrow> Panic p
           | Done (cacheControlValue, _) \<Rightarrow>
               if 0 < cacheControlValue then
                 (case cache rclient of
                    None \<Rightarrow> Panic NilDereference
                  | Some c \<Rightarrow>
                      Done (rclient\<lparr>cache := Some (lru_Add c callURL
                        \<lparr>Content = Body response, ceHeaders = Headers response,
                         Expires = now + sint (Second * word_of_int cacheControlValue)\<rparr>)\<rparr>))
               else Done rclient))"

section \<open>Mocks\<close>

text \<open>\<open>getHeadersMap\<close> (lines 464 to 472): a later header of the same key overwrites.\<close>

definition getHeadersMap :: "Header list \<Rightarrow> header_map" where
  "getHeadersMap headers =
     Some (foldl (\<lambda>headersMap header. AList.update (Key header) (Value header) headersMap)
             [] headers)"

text \<open>
  \<open>sameHeaders\<close> (lines 373 to 407). The loop ranges over the pairs of \<open>h1\<close> and returns
  false at the first pair that \<open>h2\<close> lacks or maps to another value.
\<close>

fun sameHeaders_loop :: "(string \<times> string) list \<Rightarrow> (string \<times> string) list \<Rightarrow> bool" where
  "sameHeaders_loop [] h2 = True"
| "sameHeaders_loop ((key, v) # rest) h2 =
     (case map_of h2 key of
        None \<Rightarrow> False
      | Some val \<Rightarrow> if val \<noteq> v then False else sameHeaders_loop rest h2)"

definition sameHeaders :: "header_map \<Rightarrow> header_map \<Rightarrow> bool" where
  "sameHeaders h1 h2 =
     (case (h1, h2) of
        (None, None) \<Rightarrow> True
      | (None, Some _) \<Rightarrow> False
      | (Some _, None) \<Rightarrow> False
      | (Some m1, Some m2) \<Rightarrow>
          if length m1 \<noteq> length m2 then False else sameHeaders_loop m1 m2)"

text \<open>\<open>searchMockCall\<close> (lines 475 to 483).\<close>

fun searchMockCall ::
  "mockResponse list \<Rightarrow> string \<Rightarrow> string \<Rightarrow> header_map \<Rightarrow> string \<Rightarrow> Response option" where
  "searchMockCall [] method callURL headers body = None"
| "searchMockCall (mock # rest) method callURL headers body =
     (if mURL mock = callURL \<and> mMethod mock = method
         \<and> sameHeaders headers (mHeaders mock) \<and> body = mBody mock
      then Some (mResponse mock)
      else searchMockCall rest method callURL headers body)"

text \<open>\<open>AddMock\<close> (lines 174 to 190), \<open>CleanMocks\<close> and \<open>DisableMock\<close>.\<close>

definition AddMock ::
  "world \<Rightarrow> string \<Rightarrow> string \<Rightarrow> string \<Rightarrow> Response \<Rightarrow> Header list \<Rightarrow> world" where
  "AddMock w URL method body response headers =
     (let mResponse = \<lparr>mURL = URL, mMethod = method, mResponse = response,
                       mHeaders = getHeadersMap headers, mBody = body\<rparr>
      in if mocks w = [] then w\<lparr>mocks := [mResponse]\<rparr>
         else w\<lparr>mocks := mocks w @ [mResponse]\<rparr>)"

definition CleanMocks :: "world \<Rightarrow> world" where
  "CleanMocks w = w\<lparr>mocks := []\<rparr>"

definition DisableMock :: "world \<Rightarrow> world" where
  "DisableMock w = w\<lparr>useMock := False\<rparr>"

section \<open>Pools\<close>

definition DefaultMaxIdleConnectionsPerHost :: int where
  "DefaultMaxIdleConnectionsPerHost = 100"

text \<open>\<open>http.DefaultMaxIdleConnsPerHost\<close> of the standard library.\<close>

definition http_DefaultMaxIdleConnsPerHost :: int where
  "http_DefaultMaxIdleConnsPerHost = 2"

definition defaultTransport :: transport where
  "defaultTransport =
     \<lparr>DisableCompression = False, DisableKeepAlives = False,
      TransportMaxIdleConnsPerHost = 0, TransportProxy = None\<rparr>"

text \<open>The zero value that \<open>new(rClient)\<close> gives, with its client set.\<close>

definition new_rClient :: "http_client \<Rightarrow> rClient" where
  "new_rClient c = \<lparr>client = c, baseURL = [], cache = None, stale = False\<rparr>"

text \<open>\<open>AddCustomPool\<close> (lines 91 to 133).\<close>

definition AddCustomPool :: "world \<Rightarrow> string \<Rightarrow> PoolConfig \<Rightarrow> world" where
  "AddCustomPool w pattern config =
     (let t0 = defaultTransport;
          t1 = (if 0 < MaxIdleConnsPerHost config
                then t0\<lparr>TransportMaxIdleConnsPerHost := MaxIdleConnsPerHost config\<rparr>
                else t0\<lparr>TransportMaxIdleConnsPerHost := http_DefaultMaxIdleConnsPerHost\<rparr>);
          t2 = (if Proxy config \<noteq> [] then t1\<lparr>TransportProxy := Some (Proxy config)\<rparr> else t1);
          c0 = \<lparr>Transport = t2, ClientTimeout = 0\<rparr>;
          c1 = (if Timeout config \<noteq> 0
                then c0\<lparr>ClientTimeout := Timeout config * Millisecond\<rparr> else c0);
          r0 = new_rClient c1;
          r1 = (if BaseURL config \<noteq> [] then r0\<lparr>baseURL := BaseURL config\<rparr> else r0);
          r2 = (if 0 < CacheElements config
                then r1\<lparr>cache := Some (lru_New (nat (CacheElements config))),
                        stale := CacheState config\<rparr>
                else r1)
      in w\<lparr>pools := (pools w)(pattern \<mapsto> r2)\<rparr>)"

text \<open>\<open>initDefaultPool\<close> (lines 315 to 334).\<close>

definition defaultPool :: rClient where
  "defaultPool =
     new_rClient \<lparr>Transport =
         defaultTransport\<lparr>TransportMaxIdleConnsPerHost := DefaultMaxIdleConnectionsPerHost\<rparr>,
       ClientTimeout = 0\<rparr>"

definition initDefaultPool :: "world \<Rightarrow> rClient \<times> world" where
  "initDefaultPool w = (defaultPool, w\<lparr>pools := (pools w)(''default'' \<mapsto> defaultPool)\<rparr>)"

text \<open>
  \<open>getPool\<close> (lines 337 to 351). The loop visits the keys of the map in the order the
  run-time system chose for this call; \<open>regexp.MustCompile\<close> panics on a pattern that does
  not compile. The result names the key under which the pool is stored, so that later
  changes of the pool's cache can be written back to the map.
\<close>

fun getPool_range ::
  "(string \<Rightarrow> (string \<Rightarrow> bool) option) \<Rightarrow> (string \<Rightarrow> rClient option) \<Rightarrow> string
   \<Rightarrow> string list \<Rightarrow> (string \<times> rClient) option exec" where
  "getPool_range compile ps callURL [] = Done None"
| "getPool_range compile ps callURL (pattern # rest) =
     (case ps pattern of
        None \<Rightarrow> getPool_range compile ps callURL rest
      | Some pool \<Rightarrow>
          (case compile pattern of
             None \<Rightarrow> Panic RegexpSyntax
           | Some matchString \<Rightarrow>
               if matchString callURL then Done (Some (pattern, pool))
               else getPool_range compile ps callURL rest))"

definition getPool :: "env \<Rightarrow> world \<Rightarrow> string \<Rightarrow> (string \<times> rClient \<times> world) exec" where
  "getPool e w callURL =
     (case getPool_range (Compile e) (pools w) callURL (range_pools e) of
        Panic p \<Rightarrow> Panic p
      | Done (Some (pattern, pool)) \<Rightarrow> Done (pattern, pool, w)
      | Done None \<Rightarrow>
          (case pools w ''default'' of
             Some pool \<Rightarrow> Done (''default'', pool, w)
           | None \<Rightarrow> (case initDefaultPool w of (pool, w') \<Rightarrow> Done (''default'', pool, w'))))"

text \<open>
  An order of visit is one that \<open>range\<close> can take on a map: every key once.
\<close>

definition range_of :: "string list \<Rightarrow> (string \<Rightarrow> rClient option) \<Rightarrow> bool" where
  "range_of order ps = (distinct order \<and> set order = dom ps)"

section \<open>The request executor\<close>

text \<open>
  Lines 256 to 287 of \<open>performRequest\<close>: from what \<open>client.Do\<close> returned to the
  \<open>Response\<close> and the error of the call. Reading a field of a nil response panics.
\<close>

definition buildResponse ::
  "http_response option \<Rightarrow> go_error option \<Rightarrow> (Response \<times> go_error option) exec" where
  "buildResponse response err =
     (let isNotFollowRedirectError = (err = Some (UrlError NotFollowRedirectError));
          error = (if isNotFollowRedirectError then None else err)
      in if error \<noteq> None \<and> \<not> isNotFollowRedirectError then
           Done (\<lparr>Body = [], Code = 0, Headers = None,
                  CachedContent = False, Staled = False\<rparr>, error)
         else if \<not> isNotFollowRedirectError then
           (case response of
              None \<Rightarrow> Panic NilDereference
            | Some r \<Rightarrow>
                (case ReadAll r of
                   (byteBody, Some readError) \<Rightarrow>
                     Done (\<lparr>Body = [], Code = StatusCode r, Headers = None,
                            CachedContent = False, Staled = False\<rparr>, Some readError)
                 | (byteBody, None) \<Rightarrow>
                     Done (\<lparr>Body = byteBody, Code = StatusCode r, Headers = RespHeader r,
                            CachedContent = False, Staled = False\<rparr>, None)))
         else
           (case response of
              None \<Rightarrow> Panic NilDereference
            | Some r \<Rightarrow>
                Done (\<lparr>Body = [], Code = StatusCode r, Headers = RespHeader r,
                       CachedContent = False, Staled = False\<rparr>, None)))"

text \<open>Lines 206 to 208: the base URL of the pool is put in front of a URL that lacks it.\<close>

definition resolveURL :: "rClient \<Rightarrow> string \<Rightarrow> string" where
  "resolveURL rclient callURL =
     (if baseURL rclient \<noteq> [] \<and> \<not> Contains callURL (baseURL rclient)
      then baseURL rclient @ callURL else callURL)"

text \<open>
  Lines 231 to 246: the request. \<open>setHeaders\<close> then adds \<open>Accept\<close>,
  \<open>Connection\<close> and, unless the method is GET, \<open>Content-Type\<close> before the caller's
  headers; the request keeps the caller's headers as they were given.
\<close>

definition requestOf :: "string \<Rightarrow> string \<Rightarrow> string \<Rightarrow> header_map \<Rightarrow> request" where
  "requestOf method callURL body headers =
     \<lparr>rqMethod = method, rqURL = callURL,
      rqBody = (if method = ''POST'' \<or> method = ''PUT'' then Some body else None),
      rqForwarded = headers\<rparr>"

text \<open>
  \<open>performRequest\<close> (lines 203 to 303). The result is what the call returns, or a panic,
  and the package's variables after the call.
\<close>

definition performRequest ::
  "env \<Rightarrow> world \<Rightarrow> string \<Rightarrow> string \<Rightarrow> string \<Rightarrow> header_map
   \<Rightarrow> (Response option \<times> go_error option) exec \<times> world" where
  "performRequest e w method url body headers =
     (case getPool e w url of
        Panic p \<Rightarrow> (Panic p, w)
      | Done (key, rclient, w1) \<Rightarrow>
          let callURL = resolveURL rclient url in
          (case (if useMock w1 then searchMockCall (mocks w1) method callURL headers body
                 else None) of
             Some r \<Rightarrow> (Done (Some r, None), w1)
           | None \<Rightarrow>
               let withCache = (method = ''GET'' \<and> cache rclient \<noteq> None) in
               (case (if withCache then getResponseFromCache (now_lookup e) rclient callURL
                      else Done (None, rclient)) of
                  Panic p \<Rightarrow> (Panic p, w1)
                | Done (cachedResponse, rclient1) \<Rightarrow>
                    let w2 = w1\<lparr>pools := (pools w1)(key \<mapsto> rclient1)\<rparr> in
                    if (case cachedResponse of None \<Rightarrow> False | Some c \<Rightarrow> \<not> Staled c)
                    then (Done (cachedResponse, None), w2)
                    else
                      (case NewRequest e method callURL of
                         Some err \<Rightarrow> (Done (None, Some err), w2)
                       | None \<Rightarrow>
                           let rq = requestOf method callURL body headers;
                               w3 = w2\<lparr>wire := wire w2 @ [rq]\<rparr>
                           in (case Do e (client rclient) rq of
                                 (response, err) \<Rightarrow>
                                   (case buildResponse response err of
                                      Panic p \<Rightarrow> (Panic p, w3)
                                    | Done (rcResponse, error) \<Rightarrow>
                                        if withCache then
                                          if Code rcResponse = 200 then
                                            (case setResponseInCache (now_store e) rclient1
                                                    rcResponse callURL of
                                               Panic p \<Rightarrow> (Panic p, w3)
                                             | Done rclient2 \<Rightarrow>
                                                 (Done (Some rcResponse, error),
                                                  w3\<lparr>pools := (pools w3)(key \<mapsto> rclient2)\<rparr>))
                                          else if stale rclient1 \<and> cachedResponse \<noteq> None
                                          then (Done (cachedResponse, None), w3)
                                          else (Done (Some rcResponse, error), w3)
                                        else (Done (Some rcResponse, error), w3)))))))"

text \<open>\<open>Get\<close> (lines 136 to 138).\<close>

definition Get ::
  "env \<Rightarrow> world \<Rightarrow> string \<Rightarrow> Header list
   \<Rightarrow> (Response option \<times> go_error option) exec \<times> world" where
  "Get e w callURL headers = performRequest e w ''GET'' callURL [] (getHeadersMap headers)"

section \<open>Notions used to state the properties\<close>

text \<open>A pattern matches a URL when it compiles and its \<open>MatchString\<close> accepts the URL.\<close>

definition matches :: "(string \<Rightarrow> (string \<Rightarrow> bool) option) \<Rightarrow> string \<Rightarrow> string \<Rightarrow> bool" where
  "matches compile pattern callURL =
     (case compile pattern of None \<Rightarrow> False | Some matchString \<Rightarrow> matchString callURL)"

text \<open>
  The rule of the specification for pool resolution, in its own words: of the patterns in
  the order of their registration, the first that matches the URL.
\<close>

definition first_registered ::
  "(string \<Rightarrow> (string \<Rightarrow> bool) option) \<Rightarrow> string list \<Rightarrow> string \<Rightarrow> string option" where
  "first_registered compile registered callURL =
     find (\<lambda>pattern. matches compile pattern callURL) registered"

text \<open>Mock mode is active and a fixture answers the call.\<close>

definition mock_intercepts :: "world \<Rightarrow> string \<Rightarrow> string \<Rightarrow> header_map \<Rightarrow> string \<Rightarrow> bool" where
  "mock_intercepts w method callURL headers body =
     (useMock w \<and> searchMockCall (mocks w) method callURL headers body \<noteq> None)"

text \<open>
  The entry that the cache lookup of a call finds: none when the call is not a GET, when
  the pool has no cache, or when the cache has no entry for the URL.
\<close>

definition cached_entry :: "rClient \<Rightarrow> string \<Rightarrow> string \<Rightarrow> cacheElement option" where
  "cached_entry rclient method callURL =
     (if method = ''GET''
      then (case cache rclient of None \<Rightarrow> None | Some c \<Rightarrow> lru_Peek c callURL)
      else None)"

text \<open>
  What the cache lookup of a call hands to the executor: the entry as a fresh \<open>Response\<close>,
  as a stale one, or nothing.
\<close>

definition cachedResponseOf :: "int \<Rightarrow> rClient \<Rightarrow> string \<Rightarrow> string \<Rightarrow> Response option" where
  "cachedResponseOf now rclient method callURL =
     (case cached_entry rclient method callURL of
        None \<Rightarrow> None
      | Some el \<Rightarrow>
          if now < Expires el then
            Some \<lparr>Body = Content el, Code = 200, Headers = ceHeaders el,
                  CachedContent = True, Staled = False\<rparr>
          else if stale rclient then
            Some \<lparr>Body = Content el, Code = 200, Headers = ceHeaders el,
                  CachedContent = True, Staled = True\<rparr>
          else None)"

text \<open>A fixture answers a call: the condition of line 477.\<close>

definition fixture_matches ::
  "string \<Rightarrow> string \<Rightarrow> header_map \<Rightarrow> string \<Rightarrow> mockResponse \<Rightarrow> bool" where
  "fixture_matches method callURL headers body mock =
     (mURL mock = callURL \<and> mMethod mock = method
      \<and> sameHeaders headers (mHeaders mock) \<and> body = mBody mock)"

text \<open>A header map is well formed when it is a map (not nil) with no key twice.\<close>

definition wf_headers :: "header_map \<Rightarrow> bool" where
  "wf_headers h = (case h of None \<Rightarrow> False | Some m \<Rightarrow> distinct (map fst m))"

text \<open>The entry for a URL in the cache of the pool that the map holds under a key.\<close>

definition pool_entry :: "world \<Rightarrow> string \<Rightarrow> string \<Rightarrow> cacheElement option" where
  "pool_entry w key callURL =
     (case pools w key of None \<Rightarrow> None | Some r \<Rightarrow> cached_entry r ''GET'' callURL)"

text \<open>
  Equality of header sets in the words of the specification: the same key and value
  pairs, in any order.
\<close>

definition same_header_set :: "header_map \<Rightarrow> header_map \<Rightarrow> bool" where
  "same_header_set h1 h2 =
     (case (h1, h2) of
        (None, None) \<Rightarrow> True
      | (Some a, Some b) \<Rightarrow> set a = set b
      | _ \<Rightarrow> False)"

section \<open>Concrete pools, answers and environments\<close>

text \<open>
  \<open>regexp.Compile\<close> on patterns without metacharacters: such a pattern matches the strings
  that contain it.
\<close>

definition literal_regexp :: "string \<Rightarrow> (string \<Rightarrow> bool) option" where
  "literal_regexp pattern = Some (\<lambda>s. Contains s pattern)"

definition w0 :: world where
  "w0 = \<lparr>pools = Map.empty, mocks = [], useMock = False, wire = []\<rparr>"

definition config :: "string \<Rightarrow> int \<Rightarrow> bool \<Rightarrow> PoolConfig" where
  "config base n st =
     \<lparr>BaseURL = base, MaxIdleConnsPerHost = 0, Timeout = 0, Proxy = [],
      CacheElements = n, CacheState = st\<rparr>"

definition answer :: "int \<Rightarrow> string list \<Rightarrow> http_response" where
  "answer code cc =
     \<lparr>StatusCode = code, RespHeader = Some [''Cache-Control'' \<mapsto> cc],
      ReadAll = (''{}'', None)\<rparr>"

definition env_of ::
  "string list \<Rightarrow> http_response option \<times> go_error option \<Rightarrow> int \<Rightarrow> int \<Rightarrow> env" where
  "env_of order ans t1 t2 =
     \<lparr>Compile = literal_regexp, range_pools = order, NewRequest = (\<lambda>m u. None),
      Do = (\<lambda>c rq. ans), now_lookup = t1, now_store = t2\<rparr>"

text \<open>A pool with a cache that holds one entry for \<open>http://example/x\<close>, expiring at 100.\<close>

definition old_entry :: cacheElement where
  "old_entry = \<lparr>Content = ''old'', ceHeaders = None, Expires = 100\<rparr>"

definition pool_with_entry :: "bool \<Rightarrow> rClient" where
  "pool_with_entry st =
     \<lparr>client = \<lparr>Transport = defaultTransport, ClientTimeout = 0\<rparr>, baseURL = [],
      cache = Some \<lparr>capacity = 10, entries = [(''http://example/x'', old_entry)]\<rparr>,
      stale = st\<rparr>"

definition w_entry :: "bool \<Rightarrow> world" where
  "w_entry st = w0\<lparr>pools := [''example'' \<mapsto> pool_with_entry st]\<rparr>"

text \<open>The answer to a redirect that the client did not follow.\<close>

definition redirect :: http_response where
  "redirect =
     \<lparr>StatusCode = 302, RespHeader = Some [''Location'' \<mapsto> [''/y'']],
      ReadAll = ([], Some (OtherError ''closed''))\<rparr>"

definition mock_reply :: Response where
  "mock_reply =
     \<lparr>Body = ''mock'', Code = 200, Headers = None, CachedContent = False, Staled = False\<rparr>"



text \<open>One registered pool with an empty cache of ten entries.\<close>

definition w_cached :: world where
  "w_cached = AddCustomPool w0 ''example'' (config [] 10 False)"

text \<open>Two pools, registered in this order: \<open>/users\<close>, then \<open>astropay\<close>.\<close>

definition w_two_pools :: world where
  "w_two_pools =
     AddCustomPool (AddCustomPool w0 ''/users'' (config ''http://users'' 0 False))
       ''astropay'' (config ''http://cards'' 0 False)"


text \<open>Two request headers, a second answer, and a world with one fixture.\<close>

definition accept_headers :: "Header list" where
  "accept_headers = [\<lparr>Key = ''Accept'', Value = ''json''\<rparr>, \<lparr>Key = ''Encode'', Value = ''true''\<rparr>]"

definition other_reply :: Response where
  "other_reply =
     \<lparr>Body = ''other'', Code = 404, Headers = None, CachedContent = False, Staled = False\<rparr>"

definition w_once :: world where
  "w_once = AddMock (w0\<lparr>useMock := True\<rparr>) ''http://pepe.com'' ''GET'' [] mock_reply accept_headers"

section \<open>Facts about the stages of a call\<close>

lemmas ex_defs =
  env_of_def w_entry_def w0_def pool_with_entry_def old_entry_def literal_regexp_def answer_def

lemma getPool_range_key:
  "getPool_range compile ps callURL order = Done (Some (k, r)) \<Longrightarrow> ps k = Some r"
  by (induction order) (auto split: option.splits if_splits)

lemma getPool_frame:
  assumes "getPool e w callURL = Done (k, r, w1)"
  shows "wire w1 = wire w \<and> mocks w1 = mocks w \<and> useMock w1 = useMock w
     \<and> pools w1 k = Some r"
  using assms
  by (auto simp: getPool_def initDefaultPool_def dest: getPool_range_key
           split: exec.splits option.splits prod.splits)

lemma lookup_result:
  assumes "cache rclient = Some c"
  shows "getResponseFromCache now rclient callURL =
     Done (case lru_Peek c callURL of
             None \<Rightarrow> None
           | Some el \<Rightarrow>
               if now < Expires el then
                 Some \<lparr>Body = Content el, Code = 200, Headers = ceHeaders el,
                       CachedContent = True, Staled = False\<rparr>
               else if stale rclient then
                 Some \<lparr>Body = Content el, Code = 200, Headers = ceHeaders el,
                       CachedContent = True, Staled = True\<rparr>
               else None,
           rclient\<lparr>cache := Some (snd (lru_Get c callURL))\<rparr>)"
  using assms
  by (cases "map_of (entries c) callURL")
     (simp_all add: getResponseFromCache_def lru_Contains_def lru_Peek_def lru_Get_def)

lemma lookup_stage:
  "\<exists>rclient1. (if method = ''GET'' \<and> cache rclient \<noteq> None
        then getResponseFromCache now rclient callURL else Done (None, rclient))
     = Done (cachedResponseOf now rclient method callURL, rclient1)
     \<and> client rclient1 = client rclient \<and> stale rclient1 = stale rclient
     \<and> (cache rclient1 = None) = (cache rclient = None)"
  by (cases "cache rclient")
     (auto simp: cachedResponseOf_def cached_entry_def lookup_result split: option.splits)

lemma mock_stage:
  "\<not> mock_intercepts w1 method callURL headers body \<Longrightarrow>
   (if useMock w1 then searchMockCall (mocks w1) method callURL headers body else None) = None"
  by (auto simp: mock_intercepts_def)

text \<open>
  A call that reaches the network and gets a status other than 200: the stale candidate
  when the lookup gave one, the built response otherwise.
\<close>

lemma network_path_other_status:
  assumes gp: "getPool e w url = Done (key, rclient, w1)"
    and nomock: "\<not> mock_intercepts w1 method (resolveURL rclient url) headers body"
    and nofresh: "case cachedResponseOf (now_lookup e) rclient method (resolveURL rclient url) of
                    None \<Rightarrow> True | Some c \<Rightarrow> Staled c"
    and nr: "NewRequest e method (resolveURL rclient url) = None"
    and do: "Do e (client rclient) (requestOf method (resolveURL rclient url) body headers)
               = (response, err)"
    and br: "buildResponse response err = Done (rc, error)"
    and code: "Code rc \<noteq> 200"
  shows "fst (performRequest e w method url body headers) =
     (case cachedResponseOf (now_lookup e) rclient method (resolveURL rclient url) of
        Some c \<Rightarrow> Done (Some c, None)
      | None \<Rightarrow> Done (Some rc, error))"
proof -
  let ?u = "resolveURL rclient url"
  obtain rclient1 where l:
    "(if method = ''GET'' \<and> cache rclient \<noteq> None
        then getResponseFromCache (now_lookup e) rclient ?u else Done (None, rclient))
     = Done (cachedResponseOf (now_lookup e) rclient method ?u, rclient1)"
    and st: "stale rclient1 = stale rclient"
    using lookup_stage by blast
  have implied: "cachedResponseOf (now_lookup e) rclient method ?u = Some c \<Longrightarrow> Staled c
       \<Longrightarrow> method = ''GET'' \<and> cache rclient \<noteq> None \<and> stale rclient" for c
    by (auto simp: cachedResponseOf_def cached_entry_def split: option.splits if_splits)
  show ?thesis
  proof (cases "cachedResponseOf (now_lookup e) rclient method ?u")
    case None
    then show ?thesis
      using gp mock_stage[OF nomock] nr do br code l
      by (simp add: performRequest_def Let_def)
  next
    case (Some c)
    with nofresh have sc: "Staled c" by simp
    from implied[OF Some sc] obtain c0 where m: "method = ''GET''"
      and cc: "cache rclient = Some c0" and sr: "stale rclient" by auto
    show ?thesis
      using m cc sr gp mock_stage[OF nomock, unfolded m] nr do br code l Some sc st
      by (simp add: performRequest_def Let_def)
  qed
qed

text \<open>A call that finds no fresh entry and can build its request sends it.\<close>

lemma network_path_wire:
  assumes gp: "getPool e w url = Done (key, rclient, w1)"
    and nomock: "\<not> mock_intercepts w1 method (resolveURL rclient url) headers body"
    and nofresh: "case cachedResponseOf (now_lookup e) rclient method (resolveURL rclient url) of
                    None \<Rightarrow> True | Some c \<Rightarrow> Staled c"
    and nr: "NewRequest e method (resolveURL rclient url) = None"
  shows "wire (snd (performRequest e w method url body headers)) =
     wire w @ [requestOf method (resolveURL rclient url) body headers]"
proof -
  let ?u = "resolveURL rclient url"
  obtain rclient1 where l:
    "(if method = ''GET'' \<and> cache rclient \<noteq> None
        then getResponseFromCache (now_lookup e) rclient ?u else Done (None, rclient))
     = Done (cachedResponseOf (now_lookup e) rclient method ?u, rclient1)"
    using lookup_stage by blast
  have nf: "(case cachedResponseOf (now_lookup e) rclient method ?u of
               None \<Rightarrow> False | Some c \<Rightarrow> \<not> Staled c) = False"
    using nofresh by (simp split: option.splits)
  show ?thesis
    using gp mock_stage[OF nomock] nr l nf getPool_frame[OF gp]
    by (simp add: performRequest_def Let_def split: prod.splits exec.splits)
qed


lemma nofresh_from_entry:
  assumes "case cached_entry rclient method u of None \<Rightarrow> True | Some el \<Rightarrow> Expires el \<le> now"
  shows "case cachedResponseOf now rclient method u of None \<Rightarrow> True | Some c \<Rightarrow> Staled c"
  using assms by (auto simp: cachedResponseOf_def split: option.splits)

text \<open>The concrete pool of the examples.\<close>

lemma getPool_example:
  "getPool (env_of [''example''] ans t1 t2) (w_entry st) ''http://example/x''
     = Done (''example'', pool_with_entry st, w_entry st)"
  by (simp add: getPool_def ex_defs)

lemma resolve_example: "resolveURL (pool_with_entry st) u = u"
  by (simp add: resolveURL_def pool_with_entry_def)

lemma cached_entry_example:
  "cached_entry (pool_with_entry st) ''GET'' ''http://example/x'' = Some old_entry"
  by (simp add: cached_entry_def pool_with_entry_def lru_Peek_def)





section \<open>Facts about mocks\<close>

lemma sameHeaders_loop_iff:
  "sameHeaders_loop m1 m2 = (\<forall>(k, v) \<in> set m1. map_of m2 k = Some v)"
  by (induction m1 m2 rule: sameHeaders_loop.induct) (auto split: option.splits)

lemma sameHeaders_set:
  assumes "distinct (map fst m1)" "distinct (map fst m2)"
  shows "sameHeaders (Some m1) (Some m2) = (set m1 = set m2)"
proof
  assume s: "sameHeaders (Some m1) (Some m2)"
  then have len: "length m1 = length m2" and sub: "\<forall>(k, v) \<in> set m1. map_of m2 k = Some v"
    by (auto simp: sameHeaders_def sameHeaders_loop_iff split: if_splits)
  from sub have incl: "set m1 \<subseteq> set m2" by (auto dest: map_of_SomeD)
  have d1: "distinct m1" and d2: "distinct m2"
    using assms by (auto simp: distinct_map)
  have "card (set m1) = card (set m2)"
    using len d1 d2 by (simp add: distinct_card)
  with incl show "set m1 = set m2"
    by (simp add: card_subset_eq)
next
  assume e: "set m1 = set m2"
  have d1: "distinct m1" and d2: "distinct m2"
    using assms by (auto simp: distinct_map)
  have "length m1 = length m2"
    using e d1 d2 by (metis distinct_card)
  moreover have "\<forall>(k, v) \<in> set m1. map_of m2 k = Some v"
    using e assms(2) by auto
  ultimately show "sameHeaders (Some m1) (Some m2)"
    by (simp add: sameHeaders_def sameHeaders_loop_iff)
qed

lemma sameHeaders_wf:
  "wf_headers h1 \<Longrightarrow> wf_headers h2 \<Longrightarrow> sameHeaders h1 h2 = same_header_set h1 h2"
  by (cases h1; cases h2) (simp_all add: wf_headers_def same_header_set_def sameHeaders_set)

lemma searchMockCall_find:
  "searchMockCall ms method callURL headers body =
     map_option mResponse (find (fixture_matches method callURL headers body) ms)"
  by (induction ms) (simp_all add: fixture_matches_def)

lemma searchMockCall_append:
  "searchMockCall (ms @ ns) method callURL headers body =
     (case searchMockCall ms method callURL headers body of
        Some r \<Rightarrow> Some r
      | None \<Rightarrow> searchMockCall ns method callURL headers body)"
  by (induction ms) simp_all

lemma mocks_AddMock:
  "mocks (AddMock w URL method body response headers) =
     mocks w @ [\<lparr>mURL = URL, mMethod = method, mResponse = response,
                 mHeaders = getHeadersMap headers, mBody = body\<rparr>]"
  by (simp add: AddMock_def Let_def)

lemma distinct_fold_update:
  "distinct (map fst m) \<Longrightarrow>
   distinct (map fst (foldl (\<lambda>headersMap header. AList.update (Key header) (Value header) headersMap) m hs))"
  by (induction hs arbitrary: m) (simp_all add: distinct_update)

lemma wf_getHeadersMap: "wf_headers (getHeadersMap hs)"
  by (simp add: wf_headers_def getHeadersMap_def distinct_fold_update)

lemma find_cong_set:
  "(\<And>x. x \<in> set xs \<Longrightarrow> P x = Q x) \<Longrightarrow> find P xs = find Q xs"
  by (induction xs) auto

section \<open>Facts about pool resolution\<close>

lemma getPool_range_find:
  assumes "\<forall>p\<in>set order. ps p \<noteq> None \<longrightarrow> compile p \<noteq> None"
  shows "getPool_range compile ps callURL order =
     Done (case find (\<lambda>p. ps p \<noteq> None \<and> matches compile p callURL) order of
             None \<Rightarrow> None
           | Some p \<Rightarrow> (case ps p of None \<Rightarrow> None | Some pool \<Rightarrow> Some (p, pool)))"
  using assms
  by (induction order) (auto simp: matches_def split: option.splits)

lemma getPool_miss:
  assumes "getPool_range (Compile e) (pools w) callURL (range_pools e) = Done None"
  shows "getPool e w callURL =
     (case pools w ''default'' of
        Some d \<Rightarrow> Done (''default'', d, w)
      | None \<Rightarrow> Done (''default'', defaultPool,
                        w\<lparr>pools := (pools w)(''default'' \<mapsto> defaultPool)\<rparr>))"
  using assms by (simp add: getPool_def initDefaultPool_def split: option.splits)

lemma defaultPool_plain: "baseURL defaultPool = [] \<and> cache defaultPool = None"
  by (simp add: defaultPool_def new_rClient_def)



lemmas pool_defs = w_two_pools_def AddCustomPool_def w0_def config_def new_rClient_def Let_def

lemmas eval_defs = performRequest_def getPool_def env_of_def w_cached_def AddCustomPool_def
      w0_def config_def literal_regexp_def resolveURL_def new_rClient_def Let_def
      lru_New_def lru_Contains_def answer_def getResponseFromCache_def
      buildResponse_def setResponseInCache_def getMaxAge_def ToLower_def lower_char_def
      pool_entry_def cached_entry_def lru_Peek_def lru_Add_def Atoi_def is_digit_def decimal_def
      digit_val_def maxInt_def minInt_def Second_def requestOf_def

section \<open>The claims\<close>

text \<open>
  Claim C1, as the code has it: pool resolution visits the keys of the map in the order
  that \<open>range\<close> takes for this call, which Go leaves unspecified, and returns the pool of
  the first visited key whose pattern matches the URL: a pool whose pattern matches, not
  necessarily the one registered first. If no key matches, the pool stored under the key
  \<open>default\<close> is returned; when that key is absent a default pool (fresh transport, no
  base URL, no cache) is created and stored under it first, so it is created at most
  once and later misses find it in the map. Every registered pattern is taken to compile:
  \<open>regexp.MustCompile\<close> panics on one that does not.
\<close>

theorem C1_pool_resolution:
  assumes "range_of (range_pools e) (pools w)"
    and "\<forall>p\<in>dom (pools w). Compile e p \<noteq> None"
  shows "(case find (\<lambda>p. matches (Compile e) p callURL) (range_pools e) of
            Some p \<Rightarrow> (\<exists>pool. pools w p = Some pool \<and> getPool e w callURL = Done (p, pool, w))
          | None \<Rightarrow>
              (case pools w ''default'' of
                 Some d \<Rightarrow> getPool e w callURL = Done (''default'', d, w)
               | None \<Rightarrow>
                   getPool e w callURL =
                     Done (''default'', defaultPool,
                           w\<lparr>pools := (pools w)(''default'' \<mapsto> defaultPool)\<rparr>)))
     \<and> baseURL defaultPool = [] \<and> cache defaultPool = None"
proof -
  have keys: "\<And>p. p \<in> set (range_pools e) \<Longrightarrow> pools w p \<noteq> None"
    using assms(1) by (auto simp: range_of_def)
  have comp: "\<forall>p\<in>set (range_pools e). pools w p \<noteq> None \<longrightarrow> Compile e p \<noteq> None"
    using assms by (auto simp: range_of_def)
  have same: "find (\<lambda>p. pools w p \<noteq> None \<and> matches (Compile e) p callURL) (range_pools e)
      = find (\<lambda>p. matches (Compile e) p callURL) (range_pools e)"
    using keys by (intro find_cong_set) auto
  note r = getPool_range_find[OF comp, of callURL, unfolded same]
  show ?thesis
  proof (cases "find (\<lambda>p. matches (Compile e) p callURL) (range_pools e)")
    case None
    then have "getPool_range (Compile e) (pools w) callURL (range_pools e) = Done None"
      using r by simp
    from getPool_miss[OF this] show ?thesis
      using None by (simp add: defaultPool_plain split: option.splits)
  next
    case (Some p)
    then have "p \<in> set (range_pools e)"
      by (auto simp: find_Some_iff)
    with keys obtain pool where pool: "pools w p = Some pool" by blast
    then show ?thesis
      using r Some by (simp add: getPool_def defaultPool_plain)
  qed
qed

text \<open>The amended claim C1 on two pools: a URL that the first visited pattern matches, a URL that no pattern matches, and a second miss after the default pool was created.\<close>

theorem C1_pool_resolution_witness:
  "(\<exists>pool. pools w_two_pools ''/users'' = Some pool
      \<and> getPool (env_of [''/users'', ''astropay''] (None, None) 0 0) w_two_pools
           ''http://astropay/users/1'' = Done (''/users'', pool, w_two_pools))
   \<and> getPool (env_of [''/users'', ''astropay''] (None, None) 0 0) w_two_pools ''http://other''
       = Done (''default'', defaultPool,
           w_two_pools\<lparr>pools := (pools w_two_pools)(''default'' \<mapsto> defaultPool)\<rparr>)
   \<and> getPool (env_of [''/users'', ''default'', ''astropay''] (None, None) 0 0)
         (w_two_pools\<lparr>pools := (pools w_two_pools)(''default'' \<mapsto> defaultPool)\<rparr>)
         ''http://other/again''
       = Done (''default'', defaultPool,
           w_two_pools\<lparr>pools := (pools w_two_pools)(''default'' \<mapsto> defaultPool)\<rparr>)"
proof -
  let ?e = "env_of [''/users'', ''astropay''] (None, None) 0 0"
  let ?e' = "env_of [''/users'', ''default'', ''astropay''] (None, None) 0 0"
  let ?w' = "w_two_pools\<lparr>pools := (pools w_two_pools)(''default'' \<mapsto> defaultPool)\<rparr>"
  have r: "range_of (range_pools ?e) (pools w_two_pools)"
    by (auto simp: range_of_def env_of_def pool_defs)
  have c: "\<forall>p\<in>dom (pools w_two_pools). Compile ?e p \<noteq> None"
    by (simp add: env_of_def literal_regexp_def)
  have f1: "find (\<lambda>p. matches (Compile ?e) p ''http://astropay/users/1'') (range_pools ?e)
      = Some ''/users''"
    by (simp add: env_of_def literal_regexp_def matches_def)
  have f2: "find (\<lambda>p. matches (Compile ?e) p ''http://other'') (range_pools ?e) = None"
    by (simp add: env_of_def literal_regexp_def matches_def)
  have d: "pools w_two_pools ''default'' = None"
    by (simp add: pool_defs)
  have r': "range_of (range_pools ?e') (pools ?w')"
    by (auto simp: range_of_def env_of_def pool_defs)
  have c': "\<forall>p\<in>dom (pools ?w'). Compile ?e' p \<noteq> None"
    by (simp add: env_of_def literal_regexp_def)
  have f3: "find (\<lambda>p. matches (Compile ?e') p ''http://other/again'') (range_pools ?e') = None"
    by (simp add: env_of_def literal_regexp_def matches_def)
  have d': "pools ?w' ''default'' = Some defaultPool"
    by simp
  show ?thesis
    using C1_pool_resolution[OF r c, of "''http://astropay/users/1''"]
      C1_pool_resolution[OF r c, of "''http://other''"]
      C1_pool_resolution[OF r' c', of "''http://other/again''"]
    by (simp add: f1 f2 f3 d d')
qed

text \<open>Claim C1 as stated fails: \<open>/users\<close> is registered before \<open>astropay\<close>, both match the URL, \<open>range\<close> visits \<open>astropay\<close> first, and the pool of \<open>astropay\<close> is returned.\<close>

theorem C1_counterexample:
  "range_of [''astropay'', ''/users''] (pools w_two_pools)
   \<and> first_registered literal_regexp [''/users'', ''astropay''] ''http://astropay/users/1''
       = Some ''/users''
   \<and> (case getPool (env_of [''astropay'', ''/users''] (None, None) 0 0) w_two_pools
               ''http://astropay/users/1'' of
         Panic p \<Rightarrow> False
       | Done (pattern, pool, w') \<Rightarrow> pattern = ''astropay'' \<and> baseURL pool = ''http://cards'')"
  by (simp add: range_of_def first_registered_def matches_def literal_regexp_def)
     (auto simp add: pool_defs getPool_def env_of_def literal_regexp_def)

text \<open>
  Claim C2: after a 200 answer to a GET through a pool with a cache, an entry is stored
  exactly when the Cache-Control header carries a max-age directive with a strictly
  positive integer value, and then with expiry now plus that many seconds.
  The code does otherwise. With the two header lines
  \<open>Cache-Control: stale-while-revalidate=30\<close> and \<open>Cache-Control: max-age=0\<close> it stores
  an entry that expires 30 seconds after the time of admission (here 5 nanoseconds),
  although max-age is 0: \<open>getMaxAge\<close> finds \<open>max-age\<close> in the second value and reads
  the number from the first. With \<open>Cache-Control: max-age=60, public\<close> it stores nothing,
  although max-age is 60: everything after the first \<open>=\<close> goes to \<open>Atoi\<close>. With
  \<open>Cache-Control: max-age=9223372037\<close> the duration wraps around and the entry stored
  has expired long before its admission.
\<close>

theorem C2_wrong_value_admitted:
  "pool_entry (snd (performRequest
        (env_of [''example'']
           (Some (answer 200 [''stale-while-revalidate=30'', ''max-age=0'']), None) 0 5)
        w_cached ''GET'' ''http://example/x'' [] (Some []))) ''example'' ''http://example/x''
     = Some \<lparr>Content = ''{}'',
             ceHeaders = Some [''Cache-Control'' \<mapsto> [''stale-while-revalidate=30'', ''max-age=0'']],
             Expires = 30000000005\<rparr>
   \<and> pool_entry (snd (performRequest
        (env_of [''example''] (Some (answer 200 [''max-age=60, public'']), None) 0 5)
        w_cached ''GET'' ''http://example/x'' [] (Some []))) ''example'' ''http://example/x''
     = None
   \<and> pool_entry (snd (performRequest
        (env_of [''example''] (Some (answer 200 [''max-age=9223372037'']), None) 0 5)
        w_cached ''GET'' ''http://example/x'' [] (Some []))) ''example'' ''http://example/x''
     = Some \<lparr>Content = ''{}'',
             ceHeaders = Some [''Cache-Control'' \<mapsto> [''max-age=9223372037'']],
             Expires = 5 - 9223372036709551616\<rparr>"
  by (simp add: eval_defs)

text \<open>
  Claim C3: no operation has a process-terminating path; for every list of Cache-Control
  values, cache admission after a 200 answer to a GET completes without a panic.
  The code panics. A GET through a pool with a cache is answered with status 200 and the
  header \<open>Cache-Control: max-age\<close> (no \<open>=\<close>), or with the two header lines
  \<open>Cache-Control: no-cache\<close> and \<open>Cache-Control: max-age=60\<close>: \<open>getMaxAge\<close> finds
  \<open>max-age\<close>, splits the first value at \<open>=\<close> and reads index 1 of a one-element slice.
\<close>

theorem C3_admission_panics:
  "fst (performRequest (env_of [''example''] (Some (answer 200 [''max-age'']), None) 0 0)
         w_cached ''GET'' ''http://example/x'' [] (Some [])) = Panic IndexOutOfRange
   \<and> fst (performRequest
         (env_of [''example''] (Some (answer 200 [''no-cache'', ''max-age=60'']), None) 0 0)
         w_cached ''GET'' ''http://example/x'' [] (Some [])) = Panic IndexOutOfRange"
  by (simp add: performRequest_def getPool_def env_of_def w_cached_def AddCustomPool_def
      w0_def config_def literal_regexp_def resolveURL_def new_rClient_def Let_def
      lru_New_def lru_Contains_def answer_def getResponseFromCache_def
      buildResponse_def setResponseInCache_def getMaxAge_def ToLower_def lower_char_def)

text \<open>
  Claim C4: a GET through a pool with a cache and stale-serving enabled, whose cache holds
  an expired entry for the resolved URL and whose network attempt ends with a status other
  than 200, returns the stale candidate (body and headers of the entry, served from cache,
  served stale) and a nil error. The network attempt is any answer of \<open>client.Do\<close> from
  which a response is built: a transport error (status 0), a redirect, an answer whose
  body could not be read, or an ordinary answer.
\<close>

theorem C4_stale_fallback:
  assumes "getPool e w url = Done (key, rclient, w1)"
    and "cache rclient = Some c" and "stale rclient"
    and "lru_Peek c (resolveURL rclient url) = Some el"
    and "Expires el \<le> now_lookup e"
    and "\<not> mock_intercepts w1 ''GET'' (resolveURL rclient url) headers body"
    and "NewRequest e ''GET'' (resolveURL rclient url) = None"
    and "Do e (client rclient) (requestOf ''GET'' (resolveURL rclient url) body headers)
           = (response, err)"
    and "buildResponse response err = Done (rcResponse, error)"
    and "Code rcResponse \<noteq> 200"
  shows "fst (performRequest e w ''GET'' url body headers) =
     Done (Some \<lparr>Body = Content el, Code = 200, Headers = ceHeaders el,
                  CachedContent = True, Staled = True\<rparr>, None)"
proof -
  have ce: "cached_entry rclient ''GET'' (resolveURL rclient url) = Some el"
    using assms(2,4) by (simp add: cached_entry_def)
  have cr: "cachedResponseOf (now_lookup e) rclient ''GET'' (resolveURL rclient url) =
     Some \<lparr>Body = Content el, Code = 200, Headers = ceHeaders el,
           CachedContent = True, Staled = True\<rparr>"
    using ce assms(3,5) by (simp add: cachedResponseOf_def)
  show ?thesis
    using network_path_other_status[OF assms(1) assms(6) _ assms(7) assms(8) assms(9) assms(10)]
    by (simp add: cr)
qed

text \<open>The claim C4 at a concrete call: the server answers 500, the entry expired at 100, the time is 200.\<close>

theorem C4_stale_fallback_witness:
  "fst (performRequest (env_of [''example''] (Some (answer 500 []), None) 200 200)
         (w_entry True) ''GET'' ''http://example/x'' [] (Some [])) =
     Done (Some \<lparr>Body = ''old'', Code = 200, Headers = None,
                  CachedContent = True, Staled = True\<rparr>, None)"
  using C4_stale_fallback[of "env_of [''example''] (Some (answer 500 []), None) 200 200"
      "w_entry True" "''http://example/x''" "''example''" "pool_with_entry True" "w_entry True"
      "\<lparr>capacity = 10, entries = [(''http://example/x'', old_entry)]\<rparr>" old_entry
      "Some []" "[]" "Some (answer 500 [])" None
      "\<lparr>Body = ''{}'', Code = 500, Headers = Some [''Cache-Control'' \<mapsto> []],
        CachedContent = False, Staled = False\<rparr>" None]
  by (simp add: getPool_example resolve_example)
     (simp add: ex_defs lru_Peek_def mock_intercepts_def buildResponse_def)

text \<open>
  Claim C5, as the code has it: a call that reaches the network (no fixture intercepts it,
  no fresh entry answers it, the request can be built) and whose transport fails with an
  error other than the redirect sentinel returns a response with empty body, status 0 and
  no headers together with that error, unless the call is a GET that found an expired
  entry in a pool with stale-serving enabled: then the stale candidate is returned with a
  nil error.
\<close>

theorem C5_transport_error:
  assumes "getPool e w url = Done (key, rclient, w1)"
    and "\<not> mock_intercepts w1 method (resolveURL rclient url) headers body"
    and "case cached_entry rclient method (resolveURL rclient url) of
           None \<Rightarrow> True | Some el \<Rightarrow> Expires el \<le> now_lookup e"
    and "NewRequest e method (resolveURL rclient url) = None"
    and "Do e (client rclient) (requestOf method (resolveURL rclient url) body headers)
           = (response, Some err)"
    and "err \<noteq> UrlError NotFollowRedirectError"
  shows "fst (performRequest e w method url body headers) =
     (case cached_entry rclient method (resolveURL rclient url) of
        None \<Rightarrow>
          Done (Some \<lparr>Body = [], Code = 0, Headers = None,
                       CachedContent = False, Staled = False\<rparr>, Some err)
      | Some el \<Rightarrow>
          if stale rclient then
            Done (Some \<lparr>Body = Content el, Code = 200, Headers = ceHeaders el,
                         CachedContent = True, Staled = True\<rparr>, None)
          else
            Done (Some \<lparr>Body = [], Code = 0, Headers = None,
                         CachedContent = False, Staled = False\<rparr>, Some err))"
proof -
  have br: "buildResponse response (Some err) =
      Done (\<lparr>Body = [], Code = 0, Headers = None, CachedContent = False, Staled = False\<rparr>,
            Some err)"
    using assms(6) by (simp add: buildResponse_def)
  show ?thesis
    using network_path_other_status[OF assms(1) assms(2) nofresh_from_entry[OF assms(3)]
        assms(4) assms(5) br] assms(3)
    by (auto simp: cachedResponseOf_def split: option.splits)
qed

text \<open>The amended claim C5 at a concrete call: a POST that times out.\<close>

theorem C5_transport_error_witness:
  "fst (performRequest (env_of [''example''] (None, Some (UrlError (OtherCause ''timeout''))) 200 200)
         (w_entry False) ''POST'' ''http://example/x'' ''{}'' (Some [])) =
     Done (Some \<lparr>Body = [], Code = 0, Headers = None,
                  CachedContent = False, Staled = False\<rparr>,
           Some (UrlError (OtherCause ''timeout'')))"
  using C5_transport_error[of
      "env_of [''example''] (None, Some (UrlError (OtherCause ''timeout''))) 200 200"
      "w_entry False" "''http://example/x''" "''example''" "pool_with_entry False" "w_entry False"
      "''POST''" "Some []" "''{}''" None "UrlError (OtherCause ''timeout'')"]
  by (simp add: getPool_example resolve_example cached_entry_def)
     (simp add: ex_defs mock_intercepts_def)

text \<open>Claim C5 as stated fails: a GET times out, the pool serves stale, the cache holds an expired entry; the call returns the entry and a nil error.\<close>

theorem C5_counterexample:
  "fst (performRequest (env_of [''example''] (None, Some (UrlError (OtherCause ''timeout''))) 200 200)
         (w_entry True) ''GET'' ''http://example/x'' [] (Some [])) =
     Done (Some \<lparr>Body = ''old'', Code = 200, Headers = None,
                  CachedContent = True, Staled = True\<rparr>, None)"
  by (simp add: performRequest_def getPool_def ex_defs resolveURL_def Let_def
      getResponseFromCache_def lru_Contains_def lru_Get_def buildResponse_def requestOf_def)

text \<open>
  Claim C6, as the code has it: a call that reaches the network and whose transport reports
  the redirect sentinel with a redirect response (status other than 200) returns no
  error; its response has the status and headers of the redirect response and an empty
  body, unless the call is a GET that found an expired entry in a pool with stale-serving
  enabled: then the stale candidate is returned.
\<close>

theorem C6_redirect:
  assumes "getPool e w url = Done (key, rclient, w1)"
    and "\<not> mock_intercepts w1 method (resolveURL rclient url) headers body"
    and "case cached_entry rclient method (resolveURL rclient url) of
           None \<Rightarrow> True | Some el \<Rightarrow> Expires el \<le> now_lookup e"
    and "NewRequest e method (resolveURL rclient url) = None"
    and "Do e (client rclient) (requestOf method (resolveURL rclient url) body headers)
           = (Some r, Some (UrlError NotFollowRedirectError))"
    and "StatusCode r \<noteq> 200"
  shows "fst (performRequest e w method url body headers) =
     (case cached_entry rclient method (resolveURL rclient url) of
        None \<Rightarrow>
          Done (Some \<lparr>Body = [], Code = StatusCode r, Headers = RespHeader r,
                       CachedContent = False, Staled = False\<rparr>, None)
      | Some el \<Rightarrow>
          if stale rclient then
            Done (Some \<lparr>Body = Content el, Code = 200, Headers = ceHeaders el,
                         CachedContent = True, Staled = True\<rparr>, None)
          else
            Done (Some \<lparr>Body = [], Code = StatusCode r, Headers = RespHeader r,
                         CachedContent = False, Staled = False\<rparr>, None))"
proof -
  have br: "buildResponse (Some r) (Some (UrlError NotFollowRedirectError)) =
      Done (\<lparr>Body = [], Code = StatusCode r, Headers = RespHeader r,
             CachedContent = False, Staled = False\<rparr>, None)"
    by (simp add: buildResponse_def)
  show ?thesis
    using network_path_other_status[OF assms(1) assms(2) nofresh_from_entry[OF assms(3)]
        assms(4) assms(5) br] assms(3) assms(6)
    by (auto simp: cachedResponseOf_def split: option.splits)
qed

text \<open>The amended claim C6 at a concrete call: a 302 answer, a pool that does not serve stale.\<close>

theorem C6_redirect_witness:
  "fst (performRequest
         (env_of [''example''] (Some redirect, Some (UrlError NotFollowRedirectError)) 200 200)
         (w_entry False) ''GET'' ''http://example/x'' [] (Some [])) =
     Done (Some \<lparr>Body = [], Code = 302, Headers = Some [''Location'' \<mapsto> [''/y'']],
                  CachedContent = False, Staled = False\<rparr>, None)"
  using C6_redirect[of
      "env_of [''example''] (Some redirect, Some (UrlError NotFollowRedirectError)) 200 200"
      "w_entry False" "''http://example/x''" "''example''" "pool_with_entry False" "w_entry False"
      "''GET''" "Some []" "[]" redirect]
  by (simp add: getPool_example resolve_example cached_entry_example)
     (simp add: ex_defs mock_intercepts_def redirect_def)

text \<open>Claim C6 as stated fails: a GET is redirected with 302, the pool serves stale, the cache holds an expired entry; the call returns the entry with status 200, not the redirect response.\<close>

theorem C6_counterexample:
  "fst (performRequest
         (env_of [''example''] (Some redirect, Some (UrlError NotFollowRedirectError)) 200 200)
         (w_entry True) ''GET'' ''http://example/x'' [] (Some [])) =
     Done (Some \<lparr>Body = ''old'', Code = 200, Headers = None,
                  CachedContent = True, Staled = True\<rparr>, None)"
  by (simp add: performRequest_def getPool_def ex_defs resolveURL_def Let_def redirect_def
      getResponseFromCache_def lru_Contains_def lru_Get_def buildResponse_def requestOf_def)




text \<open>
  Claim C8: a fixture answers a lookup only under equality of method, URL, header set
  (the same key and value pairs, in any order) and body; the lookup returns the answer of
  the first such fixture in the order of registration; \<open>AddMock\<close> appends and replaces
  nothing, so once a fixture answers a key, a fixture registered later (a duplicate of
  the key included) never changes the answer. Header maps are those that
  \<open>getHeadersMap\<close> builds: maps with no key twice.
\<close>

theorem C8_first_fixture_wins:
  assumes "wf_headers headers"
    and "list_all (\<lambda>m. wf_headers (mHeaders m)) (mocks w)"
  shows "searchMockCall (mocks w) method callURL headers body =
       map_option mResponse
         (find (\<lambda>m. mMethod m = method \<and> mURL m = callURL
                    \<and> same_header_set headers (mHeaders m) \<and> mBody m = body) (mocks w))
     \<and> mocks (AddMock w URL' method' body' response' headers') =
         mocks w @ [\<lparr>mURL = URL', mMethod = method', mResponse = response',
                     mHeaders = getHeadersMap headers', mBody = body'\<rparr>]
     \<and> (searchMockCall (mocks w) method callURL headers body = Some r \<longrightarrow>
         searchMockCall (mocks (AddMock w URL' method' body' response' headers'))
           method callURL headers body = Some r)"
proof (intro conjI impI)
  have "find (fixture_matches method callURL headers body) (mocks w) =
        find (\<lambda>m. mMethod m = method \<and> mURL m = callURL
                    \<and> same_header_set headers (mHeaders m) \<and> mBody m = body) (mocks w)"
    using assms
    by (intro find_cong_set) (auto simp: fixture_matches_def list_all_iff sameHeaders_wf)
  then show "searchMockCall (mocks w) method callURL headers body =
       map_option mResponse
         (find (\<lambda>m. mMethod m = method \<and> mURL m = callURL
                    \<and> same_header_set headers (mHeaders m) \<and> mBody m = body) (mocks w))"
    by (simp add: searchMockCall_find)
next
  show "mocks (AddMock w URL' method' body' response' headers') =
         mocks w @ [\<lparr>mURL = URL', mMethod = method', mResponse = response',
                     mHeaders = getHeadersMap headers', mBody = body'\<rparr>]"
    by (rule mocks_AddMock)
next
  assume "searchMockCall (mocks w) method callURL headers body = Some r"
  then show "searchMockCall (mocks (AddMock w URL' method' body' response' headers'))
           method callURL headers body = Some r"
    by (simp add: mocks_AddMock searchMockCall_append)
qed

text \<open>The claim C8 on a fixture with two headers, looked up with the headers in the other order, before and after a duplicate with another answer is registered.\<close>

theorem C8_first_fixture_wins_witness:
  "searchMockCall (mocks w_once) ''GET'' ''http://pepe.com''
       (getHeadersMap (rev accept_headers)) [] = Some mock_reply
   \<and> searchMockCall
       (mocks (AddMock w_once ''http://pepe.com'' ''GET'' [] other_reply accept_headers))
       ''GET'' ''http://pepe.com'' (getHeadersMap (rev accept_headers)) [] = Some mock_reply"
proof -
  have wf1: "wf_headers (getHeadersMap (rev accept_headers))"
    by (rule wf_getHeadersMap)
  have wf2: "list_all (\<lambda>m. wf_headers (mHeaders m)) (mocks w_once)"
    by (simp add: w_once_def mocks_AddMock w0_def wf_getHeadersMap)
  have s: "searchMockCall (mocks w_once) ''GET'' ''http://pepe.com''
       (getHeadersMap (rev accept_headers)) [] = Some mock_reply"
    by (simp add: w_once_def mocks_AddMock w0_def accept_headers_def getHeadersMap_def
        sameHeaders_def)
  have "searchMockCall (mocks w_once) ''GET'' ''http://pepe.com''
       (getHeadersMap (rev accept_headers)) [] = Some mock_reply \<longrightarrow>
     searchMockCall
       (mocks (AddMock w_once ''http://pepe.com'' ''GET'' [] other_reply accept_headers))
       ''GET'' ''http://pepe.com'' (getHeadersMap (rev accept_headers)) [] = Some mock_reply"
    using C8_first_fixture_wins[OF wf1 wf2, of "''GET''" "''http://pepe.com''" "[]"
      "''http://pepe.com''" "''GET''" "[]" other_reply accept_headers mock_reply]
    by (elim conjE)
  with s show ?thesis by (intro conjI) (rule s, erule mp, rule s)
qed

text \<open>
  Claim C9, as the code has it: the lookup returns an expired entry as a stale candidate
  only when the stale-serving flag of the pool is enabled; when it is disabled the lookup
  returns nothing. In both cases the executor does not return at once: a GET that finds an
  expired entry, is not intercepted by a fixture and can build its request sends it to
  the network.
\<close>

theorem C9_expired_entry:
  "(cache rclient = Some c \<and> lru_Peek c callURL = Some el \<and> Expires el \<le> now
    \<longrightarrow> (\<exists>rclient1. getResponseFromCache now rclient callURL =
           Done (if stale rclient
                 then Some \<lparr>Body = Content el, Code = 200, Headers = ceHeaders el,
                            CachedContent = True, Staled = True\<rparr>
                 else None, rclient1)))
   \<and> (getPool e w url = Done (key, rclient, w1) \<and> cache rclient = Some c
        \<and> lru_Peek c (resolveURL rclient url) = Some el \<and> Expires el \<le> now_lookup e
        \<and> \<not> mock_intercepts w1 ''GET'' (resolveURL rclient url) headers body
        \<and> NewRequest e ''GET'' (resolveURL rclient url) = None
    \<longrightarrow> wire (snd (performRequest e w ''GET'' url body headers)) =
          wire w @ [requestOf ''GET'' (resolveURL rclient url) body headers])"
proof (intro conjI impI)
  assume "cache rclient = Some c \<and> lru_Peek c callURL = Some el \<and> Expires el \<le> now"
  then show "\<exists>rclient1. getResponseFromCache now rclient callURL =
           Done (if stale rclient
                 then Some \<lparr>Body = Content el, Code = 200, Headers = ceHeaders el,
                            CachedContent = True, Staled = True\<rparr>
                 else None, rclient1)"
    by (simp add: lookup_result)
next
  assume a: "getPool e w url = Done (key, rclient, w1) \<and> cache rclient = Some c
        \<and> lru_Peek c (resolveURL rclient url) = Some el \<and> Expires el \<le> now_lookup e
        \<and> \<not> mock_intercepts w1 ''GET'' (resolveURL rclient url) headers body
        \<and> NewRequest e ''GET'' (resolveURL rclient url) = None"
  then have nf: "case cachedResponseOf (now_lookup e) rclient ''GET'' (resolveURL rclient url) of
                    None \<Rightarrow> True | Some c \<Rightarrow> Staled c"
    by (simp add: cachedResponseOf_def cached_entry_def)
  from a have gp: "getPool e w url = Done (key, rclient, w1)"
    and nm: "\<not> mock_intercepts w1 ''GET'' (resolveURL rclient url) headers body"
    and nr: "NewRequest e ''GET'' (resolveURL rclient url) = None" by simp_all
  show "wire (snd (performRequest e w ''GET'' url body headers)) =
          wire w @ [requestOf ''GET'' (resolveURL rclient url) body headers]"
    by (rule network_path_wire[OF gp nm nf nr])
qed

text \<open>The amended claim C9 at a concrete lookup and call at time 200 (the entry expired at 100).\<close>

theorem C9_expired_entry_witness:
  "(\<exists>rclient1. getResponseFromCache 200 (pool_with_entry True) ''http://example/x'' =
       Done (Some \<lparr>Body = ''old'', Code = 200, Headers = None,
                    CachedContent = True, Staled = True\<rparr>, rclient1))
   \<and> wire (snd (performRequest (env_of [''example''] (Some (answer 500 []), None) 200 200)
          (w_entry True) ''GET'' ''http://example/x'' [] (Some []))) =
       [requestOf ''GET'' ''http://example/x'' [] (Some [])]"
  using C9_expired_entry[of "pool_with_entry True"
      "\<lparr>capacity = 10, entries = [(''http://example/x'', old_entry)]\<rparr>"
      "''http://example/x''" old_entry 200
      "env_of [''example''] (Some (answer 500 []), None) 200 200" "w_entry True"
      "''http://example/x''" "''example''" "w_entry True" "Some []" "[]"]
  by (simp add: getPool_example resolve_example)
     (simp add: ex_defs lru_Peek_def mock_intercepts_def)

text \<open>Claim C9 as stated fails: with stale-serving disabled the lookup of an expired entry returns nothing.\<close>

theorem C9_counterexample:
  "getResponseFromCache 200 (pool_with_entry False) ''http://example/x''
     = Done (None, pool_with_entry False)"
  by (simp add: getResponseFromCache_def pool_with_entry_def old_entry_def lru_Contains_def
      lru_Get_def)



end
